theory Spec2Isabelle
  imports Complex_Main "HOL-Library.Word"
begin

section \<open>JavaScript values used by the Pomodoro application\<close>

text \<open>
  The application (\<^verbatim>\<open>src/pomodoro_frontend/src/App.js\<close>) keeps its timer in JavaScript
  numbers. A number is modelled as an exact rational or one of the three non-finite values,
  and negative zero is identified with zero. On integers of magnitude below \<open>2 ^ 53\<close>, which
  covers every count of seconds or minutes the application computes with, the operations
  below agree with IEEE doubles; beyond that a double rounds where the rational does not.
\<close>

datatype jsnum = Fin rat | NaN | PosInf | NegInf

text \<open>\<^verbatim>\<open>prev > 0\<close>: a comparison with \<^verbatim>\<open>NaN\<close> is false.\<close>

fun js_gt0 :: "jsnum \<Rightarrow> bool" where
  "js_gt0 (Fin r) = (0 < r)"
| "js_gt0 PosInf = True"
| "js_gt0 NaN = False"
| "js_gt0 NegInf = False"

text \<open>\<^verbatim>\<open>prev - 1\<close>, exact (a double rounds the difference from \<open>2 ^ 53\<close> on).\<close>

fun js_sub1 :: "jsnum \<Rightarrow> jsnum" where
  "js_sub1 (Fin r) = Fin (r - 1)"
| "js_sub1 x = x"

text \<open>\<^verbatim>\<open>x * 60\<close>.\<close>

fun js_mul60 :: "jsnum \<Rightarrow> jsnum" where
  "js_mul60 (Fin r) = Fin (r * 60)"
| "js_mul60 x = x"

fun Math_floor :: "jsnum \<Rightarrow> jsnum" where
  "Math_floor (Fin r) = Fin (of_int \<lfloor>r\<rfloor>)"
| "Math_floor x = x"

text \<open>\<^verbatim>\<open>Math.min\<close> and \<^verbatim>\<open>Math.max\<close> return \<^verbatim>\<open>NaN\<close> as soon as one argument is \<^verbatim>\<open>NaN\<close>.\<close>

fun Math_min :: "jsnum \<Rightarrow> jsnum \<Rightarrow> jsnum" where
  "Math_min NaN y = NaN"
| "Math_min x NaN = NaN"
| "Math_min NegInf y = NegInf"
| "Math_min x NegInf = NegInf"
| "Math_min PosInf y = y"
| "Math_min x PosInf = x"
| "Math_min (Fin a) (Fin b) = Fin (min a b)"

fun Math_max :: "jsnum \<Rightarrow> jsnum \<Rightarrow> jsnum" where
  "Math_max NaN y = NaN"
| "Math_max x NaN = NaN"
| "Math_max PosInf y = PosInf"
| "Math_max x PosInf = PosInf"
| "Math_max NegInf y = y"
| "Math_max x NegInf = x"
| "Math_max (Fin a) (Fin b) = Fin (max a b)"

text \<open>
  A value read back from storage is any JSON value; \<open>Undefined\<close> is what reading an
  absent property gives.
\<close>

datatype jsval =
    Undefined
  | JNull
  | JBool bool
  | JNum jsnum
  | JStr string
  | JArr "jsval list"
  | JObj "(string \<times> jsval) list"

text \<open>Truthiness, as tested by \<^verbatim>\<open>||\<close>, \<^verbatim>\<open>?:\<close> and \<^verbatim>\<open>!\<close>.\<close>

fun truthy :: "jsval \<Rightarrow> bool" where
  "truthy Undefined = False"
| "truthy JNull = False"
| "truthy (JBool b) = b"
| "truthy (JNum n) = (n \<noteq> Fin 0 \<and> n \<noteq> NaN)"
| "truthy (JStr s) = (s \<noteq> [])"
| "truthy (JArr xs) = True"
| "truthy (JObj kvs) = True"

text \<open>\<^verbatim>\<open>a || b\<close>.\<close>

definition js_or :: "jsval \<Rightarrow> jsval \<Rightarrow> jsval" where
  "js_or a b = (if truthy a then a else b)"

text \<open>
  \<^verbatim>\<open>Number(v)\<close>. The conversion of a string, an array or an object to a number is the
  JavaScript runtime's; it is the parameter \<open>coerce\<close>, so that every result below holds
  for whatever the runtime computes there. The conversion can throw a TypeError, the
  result \<open>None\<close>: a parsed object with a property \<^verbatim>\<open>toString\<close> of its own, such as
  \<^verbatim>\<open>{"toString": null}\<close>, has no method left that yields a primitive value.
\<close>

fun Number :: "(jsval \<Rightarrow> jsnum option) \<Rightarrow> jsval \<Rightarrow> jsnum option" where
  "Number coerce Undefined = Some NaN"
| "Number coerce JNull = Some (Fin 0)"
| "Number coerce (JBool b) = Some (if b then Fin 1 else Fin 0)"
| "Number coerce (JNum n) = Some n"
| "Number coerce v = coerce v"

text \<open>
  \<^verbatim>\<open>v.k\<close> for the four property names the loader reads. Reading a property of
  \<^verbatim>\<open>null\<close> throws a TypeError (\<open>None\<close>); a primitive or an array has none of the four
  properties; a parsed object with a repeated key keeps the last occurrence.
\<close>

fun get_prop :: "jsval \<Rightarrow> string \<Rightarrow> jsval option" where
  "get_prop Undefined k = None"
| "get_prop JNull k = None"
| "get_prop (JObj kvs) k = Some (case map_of (rev kvs) k of None \<Rightarrow> Undefined | Some v \<Rightarrow> v)"
| "get_prop v k = Some Undefined"

section \<open>Application state\<close>

text \<open>
  A text typed by the user is a JavaScript string: a sequence of UTF-16 code units.
  \<open>utf16\<close> writes an ASCII literal as such a sequence.
\<close>

type_synonym code_unit = "16 word"

type_synonym jsstring = "code_unit list"

definition utf16 :: "string \<Rightarrow> jsstring" where
  "utf16 s = map of_char s"

text \<open>
  A task, as \<^verbatim>\<open>addTask\<close> creates it: \<^verbatim>\<open>{ id, name, done, pomodoros }\<close>. The fields
  \<^verbatim>\<open>id\<close> and \<^verbatim>\<open>done\<close> carry the prefix \<open>t_\<close> here, as do the other two for uniformity.
  An identifier is opaque: the code compares it for equality and tests it for emptiness.
\<close>

record task =
  t_id :: string
  t_name :: jsstring
  t_done :: bool
  t_pomodoros :: nat

text \<open>
  The \<^verbatim>\<open>useState\<close> cells of \<^verbatim>\<open>App\<close> (the colour theme apart). The type \<open>'e\<close> is that
  of the elements of the task list: \<open>task\<close> for the timer and the task handlers, which
  read the fields of a task, and any type for the loading and persisting effects, which
  move the list as a whole and never look at an element.
\<close>

record 'e app =
  isRunning :: bool
  isWorkSession :: bool
  workDuration :: jsnum
  breakDuration :: jsnum
  remaining :: jsnum
  tasks :: "'e list"
  taskInput :: jsstring
  selectedTaskId :: "string option"

definition DEFAULT_WORK :: jsnum where
  "DEFAULT_WORK = Fin (25 * 60)"

definition DEFAULT_BREAK :: jsnum where
  "DEFAULT_BREAK = Fin (5 * 60)"

text \<open>The initial values given to \<^verbatim>\<open>useState\<close>.\<close>

definition initial :: "'e app" where
  "initial = \<lparr> isRunning = False, isWorkSession = True, workDuration = DEFAULT_WORK,
     breakDuration = DEFAULT_BREAK, remaining = DEFAULT_WORK, tasks = [], taskInput = [],
     selectedTaskId = None \<rparr>"

text \<open>
  \<^verbatim>\<open>selectedTaskId\<close> used as a condition: \<^verbatim>\<open>null\<close> and the empty string are falsy.
\<close>

fun truthy_id :: "string option \<Rightarrow> bool" where
  "truthy_id None = False"
| "truthy_id (Some i) = (i \<noteq> [])"

section \<open>The timer\<close>

text \<open>
  The body of \<^verbatim>\<open>ts.map(t => t.id === selectedTaskId ? { ...t, pomodoros: (t.pomodoros || 0) + 1 } : t)\<close>;
  on a count, \<^verbatim>\<open>p || 0\<close> is \<open>p\<close>.
\<close>

definition credit :: "string option \<Rightarrow> task \<Rightarrow> task" where
  "credit sel t = (if Some (t_id t) = sel then t\<lparr>t_pomodoros := t_pomodoros t + 1\<rparr> else t)"

text \<open>
  One firing of the interval callback. The interval exists only while \<^verbatim>\<open>isRunning\<close>
  holds; the callback reads \<^verbatim>\<open>isWorkSession\<close>, the two durations and
  \<^verbatim>\<open>selectedTaskId\<close> of the current render, and the latest \<^verbatim>\<open>remaining\<close>. The updater
  handed to \<^verbatim>\<open>setRemaining\<close> is taken to run once for each firing.
\<close>

definition tick :: "task app \<Rightarrow> task app" where
  "tick s =
     (if \<not> isRunning s then s
      else if js_gt0 (remaining s) then s\<lparr>remaining := js_sub1 (remaining s)\<rparr>
      else
        let nextIsWork = \<not> isWorkSession s;
            nextRemaining = (if nextIsWork then workDuration s else breakDuration s);
            ts = (if isWorkSession s \<and> truthy_id (selectedTaskId s)
                  then map (credit (selectedTaskId s)) (tasks s) else tasks s)
        in s\<lparr>tasks := ts, isWorkSession := nextIsWork, remaining := nextRemaining\<rparr>)"

definition startPause :: "'e app \<Rightarrow> 'e app" where
  "startPause s = s\<lparr>isRunning := \<not> isRunning s\<rparr>"

definition resetTimer :: "'e app \<Rightarrow> 'e app" where
  "resetTimer s =
     s\<lparr>isRunning := False,
       remaining := (if isWorkSession s then workDuration s else breakDuration s)\<rparr>"

definition switchSession :: "'e app \<Rightarrow> 'e app" where
  "switchSession s =
     (let next = \<not> isWorkSession s
      in s\<lparr>isRunning := False, isWorkSession := next,
           remaining := (if next then workDuration s else breakDuration s)\<rparr>)"

text \<open>The two inline handlers of the Focus and Break buttons.\<close>

definition selectMode :: "bool \<Rightarrow> 'e app \<Rightarrow> 'e app" where
  "selectMode work s =
     s\<lparr>isRunning := False, isWorkSession := work,
       remaining := (if work then workDuration s else breakDuration s)\<rparr>"

definition updateDurations :: "jsnum \<Rightarrow> jsnum \<Rightarrow> 'e app \<Rightarrow> 'e app" where
  "updateDurations newWorkMin newBreakMin s =
     (let w = js_mul60 (Math_max (Fin 1) (Math_min (Fin 180) (Math_floor newWorkMin)));
          b = js_mul60 (Math_max (Fin 1) (Math_min (Fin 60) (Math_floor newBreakMin)))
      in s\<lparr>workDuration := w, breakDuration := b,
           remaining := (if isWorkSession s then w else b)\<rparr>)"

section \<open>The task list\<close>

text \<open>
  \<^verbatim>\<open>String.prototype.trim\<close> strips white space and line terminators from both ends:
  tab, line feed, vertical tab, form feed, carriage return, the space, the no-break space,
  U+1680, U+2000 to U+200A, the line and paragraph separators U+2028 and U+2029, U+202F,
  U+205F, U+3000 and the byte order mark U+FEFF. Each is a single code unit.
\<close>

definition is_ws :: "code_unit \<Rightarrow> bool" where
  "is_ws c \<longleftrightarrow>
     c \<in> set [0x0009, 0x000A, 0x000B, 0x000C, 0x000D, 0x0020, 0x00A0, 0x1680, 0x2028, 0x2029,
              0x202F, 0x205F, 0x3000, 0xFEFF]
     \<or> (0x2000 \<le> c \<and> c \<le> 0x200A)"

definition trim :: "jsstring \<Rightarrow> jsstring" where
  "trim s = rev (dropWhile is_ws (rev (dropWhile is_ws s)))"

text \<open>
  What \<^verbatim>\<open>addTask\<close> reads from the runtime when it runs: the value
  \<^verbatim>\<open>crypto.randomUUID()\<close> would return, where the browser has that function (the global
  \<^verbatim>\<open>crypto\<close> exists in every browser), and the milliseconds \<^verbatim>\<open>Date.now()\<close> returns.
\<close>

record runtime =
  randomUUID :: "string option"
  now :: int

text \<open>\<^verbatim>\<open>String(n)\<close> on an integer: its decimal digits, after a minus sign if negative.\<close>

definition digit :: "nat \<Rightarrow> char" where
  "digit d = ''0123456789'' ! d"

function digits :: "nat \<Rightarrow> string" where
  "digits n = (if n < 10 then [digit n] else digits (n div 10) @ [digit (n mod 10)])"
  by pat_completeness auto
termination
  by (relation "measure id") auto

declare digits.simps [simp del]

definition String_int :: "int \<Rightarrow> string" where
  "String_int n = (if n < 0 then CHR ''-'' # digits (nat (- n)) else digits (nat n))"

text \<open>\<^verbatim>\<open>crypto.randomUUID ? crypto.randomUUID() : String(Date.now())\<close>.\<close>

definition newTaskId :: "runtime \<Rightarrow> string" where
  "newTaskId env = (case randomUUID env of Some u \<Rightarrow> u | None \<Rightarrow> String_int (now env))"

definition addTask :: "runtime \<Rightarrow> task app \<Rightarrow> task app" where
  "addTask env s =
     (let name = trim (taskInput s) in
      if name = [] then s
      else
        let newTask = \<lparr> t_id = newTaskId env, t_name = name, t_done = False, t_pomodoros = 0 \<rparr>
        in s\<lparr>tasks := newTask # tasks s, taskInput := [],
             selectedTaskId :=
               (if \<not> truthy_id (selectedTaskId s) then Some (t_id newTask)
                else selectedTaskId s)\<rparr>)"

definition toggleTaskDone :: "string \<Rightarrow> task app \<Rightarrow> task app" where
  "toggleTaskDone i s =
     s\<lparr>tasks := map (\<lambda>t. if t_id t = i then t\<lparr>t_done := \<not> t_done t\<rparr> else t) (tasks s)\<rparr>"

definition deleteTask :: "string \<Rightarrow> task app \<Rightarrow> task app" where
  "deleteTask i s =
     s\<lparr>tasks := filter (\<lambda>t. t_id t \<noteq> i) (tasks s),
       selectedTaskId := (if selectedTaskId s = Some i then None else selectedTaskId s)\<rparr>"

definition editTaskName :: "string \<Rightarrow> jsstring \<Rightarrow> task app \<Rightarrow> task app" where
  "editTaskName i name s =
     s\<lparr>tasks := map (\<lambda>t. if t_id t = i then t\<lparr>t_name := name\<rparr> else t) (tasks s)\<rparr>"

definition selectTask :: "string \<Rightarrow> 'e app \<Rightarrow> 'e app" where
  "selectTask i s = s\<lparr>selectedTaskId := Some i\<rparr>"

text \<open>The \<^verbatim>\<open>onChange\<close> handler of the task input.\<close>

definition setTaskInput :: "jsstring \<Rightarrow> 'e app \<Rightarrow> 'e app" where
  "setTaskInput v s = s\<lparr>taskInput := v\<rparr>"

section \<open>Persistence\<close>

text \<open>
  What \<^verbatim>\<open>localStorage.getItem(key)\<close> holds for one key, seen through
  \<^verbatim>\<open>JSON.parse(getItem(key) || fallback)\<close>: nothing (or the empty string), so that the
  fallback literal is parsed; a text that \<^verbatim>\<open>JSON.parse\<close> rejects; or a text that parses to
  a value. The storage itself is taken to be accessible.
\<close>

datatype 'a item = Absent | Unparsable | Parsed 'a

text \<open>
  The task record parses to an array or to something that is not an array:
  \<^verbatim>\<open>Array.isArray\<close> is the only test the loader makes, so the elements of the array are
  of any type \<open>'e\<close>. At \<open>'e = jsval\<close> the array holds arbitrary parsed values, null among
  them; at \<open>'e = task\<close> it is a list the application itself has persisted.
\<close>

datatype 'e tasks_value = TasksArray "'e list" | NotArray

record 'e storage =
  pomodoro_tasks :: "'e tasks_value item"
  pomodoro_settings :: "jsval item"
  pomodoro_state :: "jsval item"

text \<open>\<^verbatim>\<open>JSON.parse(getItem(key) || fallback)\<close>; \<open>None\<close> is the SyntaxError.\<close>

fun parse_or :: "'a item \<Rightarrow> 'a \<Rightarrow> 'a option" where
  "parse_or Absent fallback = Some fallback"
| "parse_or Unparsable fallback = None"
| "parse_or (Parsed v) fallback = Some v"

text \<open>The \<^verbatim>\<open>catch\<close> block of the loader.\<close>

definition load_catch :: "'e app \<Rightarrow> 'e app" where
  "load_catch s =
     s\<lparr>workDuration := DEFAULT_WORK, breakDuration := DEFAULT_BREAK, remaining := DEFAULT_WORK\<rparr>"

text \<open>
  The three parts of the \<^verbatim>\<open>try\<close> block. Each returns \<open>None\<close> when it throws; every
  throw of a part comes before the part's first state update. \<^verbatim>\<open>Number.isFinite(v)\<close>
  converts nothing: it holds of the values \<open>JNum (Fin r)\<close> only.
\<close>

definition read_tasks :: "'e storage \<Rightarrow> 'e app \<Rightarrow> 'e app option" where
  "read_tasks st s =
     (case parse_or (pomodoro_tasks st) (TasksArray []) of
        None \<Rightarrow> None
      | Some (TasksArray ts) \<Rightarrow> Some (s\<lparr>tasks := ts\<rparr>)
      | Some NotArray \<Rightarrow> Some s)"

text \<open>\<^verbatim>\<open>Number.isFinite(n) ? n : fallback\<close> on a number.\<close>

fun finite_or :: "jsnum \<Rightarrow> jsnum \<Rightarrow> jsnum" where
  "finite_or (Fin r) fallback = Fin r"
| "finite_or n fallback = fallback"

text \<open>
  The settings part also hands on \<^verbatim>\<open>wd\<close> and \<^verbatim>\<open>bd\<close>, which the state part reads. Both
  calls of \<^verbatim>\<open>Number\<close> come before \<^verbatim>\<open>setWorkDuration\<close>.
\<close>

definition read_settings ::
  "(jsval \<Rightarrow> jsnum option) \<Rightarrow> 'e storage \<Rightarrow> 'e app \<Rightarrow> ('e app \<times> jsnum \<times> jsnum) option" where
  "read_settings coerce st s =
     (case parse_or (pomodoro_settings st) (JObj []) of
        None \<Rightarrow> None
      | Some savedSettings \<Rightarrow>
          (case get_prop savedSettings ''workDuration'' of
             None \<Rightarrow> None
           | Some wv \<Rightarrow>
               (case Number coerce (js_or wv (JNum DEFAULT_WORK)) of
                  None \<Rightarrow> None
                | Some wd \<Rightarrow>
                    (case get_prop savedSettings ''breakDuration'' of
                       None \<Rightarrow> None
                     | Some bv \<Rightarrow>
                         (case Number coerce (js_or bv (JNum DEFAULT_BREAK)) of
                            None \<Rightarrow> None
                          | Some bd \<Rightarrow>
                              Some (s\<lparr>workDuration := finite_or wd DEFAULT_WORK,
                                      breakDuration := finite_or bd DEFAULT_BREAK\<rparr>, wd, bd))))))"

definition read_state :: "'e storage \<Rightarrow> jsnum \<Rightarrow> jsnum \<Rightarrow> 'e app \<Rightarrow> 'e app option" where
  "read_state st wd bd s =
     (case parse_or (pomodoro_state st) (JObj []) of
        None \<Rightarrow> None
      | Some savedState \<Rightarrow>
          (case get_prop savedState ''isWorkSession'' of
             None \<Rightarrow> None
           | Some iw \<Rightarrow>
               let s1 = (case iw of JBool b \<Rightarrow> s\<lparr>isWorkSession := b\<rparr> | _ \<Rightarrow> s)
               in (case get_prop savedState ''remaining'' of
                     None \<Rightarrow> None
                   | Some (JNum (Fin r)) \<Rightarrow> Some (s1\<lparr>remaining := Fin r\<rparr>)
                   | Some _ \<Rightarrow> Some (s1\<lparr>remaining := (if truthy iw then wd else bd)\<rparr>))))"

text \<open>
  The loading effect, run once on mount. The state updates made before a throw stay; the
  \<^verbatim>\<open>catch\<close> block then adds its own.
\<close>

definition load :: "(jsval \<Rightarrow> jsnum option) \<Rightarrow> 'e storage \<Rightarrow> 'e app \<Rightarrow> 'e app" where
  "load coerce st s =
     (case read_tasks st s of
        None \<Rightarrow> load_catch s
      | Some s1 \<Rightarrow>
          (case read_settings coerce st s1 of
             None \<Rightarrow> load_catch s1
           | Some (s2, wd, bd) \<Rightarrow>
               (case read_state st wd bd s2 of
                  None \<Rightarrow> load_catch s2
                | Some s3 \<Rightarrow> s3)))"

text \<open>
  \<^verbatim>\<open>JSON.stringify\<close> writes \<^verbatim>\<open>null\<close> for a number that is not finite. A stored text
  is identified with the value it parses to.
\<close>

fun num_json :: "jsnum \<Rightarrow> jsval" where
  "num_json (Fin r) = JNum (Fin r)"
| "num_json n = JNull"

text \<open>The three persisting effects together.\<close>

definition persist :: "'e app \<Rightarrow> 'e storage" where
  "persist s =
     \<lparr> pomodoro_tasks = Parsed (TasksArray (tasks s)),
       pomodoro_settings = Parsed (JObj [(''workDuration'', num_json (workDuration s)),
                                         (''breakDuration'', num_json (breakDuration s))]),
       pomodoro_state = Parsed (JObj [(''isWorkSession'', JBool (isWorkSession s)),
                                      (''remaining'', num_json (remaining s))]) \<rparr>"

section \<open>Events\<close>

text \<open>
  Everything the mounted component reacts to: the interval firing and the handlers of its
  buttons and inputs. A run of the application is the loading effect followed by a sequence
  of events.
\<close>

datatype event =
    Tick
  | StartPause
  | ResetTimer
  | SwitchSession
  | SelectMode bool
  | UpdateDurations jsnum jsnum
  | SetTaskInput jsstring
  | AddTask runtime
  | ToggleTaskDone string
  | DeleteTask string
  | EditTaskName string jsstring
  | SelectTask string

fun apply_event :: "event \<Rightarrow> task app \<Rightarrow> task app" where
  "apply_event Tick s = tick s"
| "apply_event StartPause s = startPause s"
| "apply_event ResetTimer s = resetTimer s"
| "apply_event SwitchSession s = switchSession s"
| "apply_event (SelectMode work) s = selectMode work s"
| "apply_event (UpdateDurations w b) s = updateDurations w b s"
| "apply_event (SetTaskInput v) s = setTaskInput v s"
| "apply_event (AddTask env) s = addTask env s"
| "apply_event (ToggleTaskDone i) s = toggleTaskDone i s"
| "apply_event (DeleteTask i) s = deleteTask i s"
| "apply_event (EditTaskName i name) s = editTaskName i name s"
| "apply_event (SelectTask i) s = selectTask i s"

text \<open>
  The two arguments of \<^verbatim>\<open>updateDurations\<close> are numbers of minutes: the value of a
  numeric input and a rounded quotient, never \<^verbatim>\<open>NaN\<close>.
\<close>

fun numeric_event :: "event \<Rightarrow> bool" where
  "numeric_event (UpdateDurations w b) = (w \<noteq> NaN \<and> b \<noteq> NaN)"
| "numeric_event e = True"

section \<open>Notions of the specification\<close>

text \<open>
  Clamping a requested number of minutes to the range from \<open>lo\<close> to \<open>hi\<close>, in the
  specification's words; fractions of a minute are dropped first, as the code does.
\<close>

fun clamp_minutes :: "int \<Rightarrow> int \<Rightarrow> jsnum \<Rightarrow> int" where
  "clamp_minutes lo hi (Fin r) = (if \<lfloor>r\<rfloor> < lo then lo else if hi < \<lfloor>r\<rfloor> then hi else \<lfloor>r\<rfloor>)"
| "clamp_minutes lo hi PosInf = hi"
| "clamp_minutes lo hi NegInf = lo"
| "clamp_minutes lo hi NaN = lo"

text \<open>A non-negative integer number of seconds.\<close>

fun nonneg_int :: "jsnum \<Rightarrow> bool" where
  "nonneg_int (Fin r) = (0 \<le> r \<and> of_int \<lfloor>r\<rfloor> = r)"
| "nonneg_int n = False"

text \<open>
  The timer invariant: \<^verbatim>\<open>remaining\<close> and both configured durations are non-negative
  integers. The durations belong to it because a session switch copies one of them into
  \<^verbatim>\<open>remaining\<close>.
\<close>

definition timer_inv :: "'e app \<Rightarrow> bool" where
  "timer_inv s \<longleftrightarrow>
     nonneg_int (remaining s) \<and> nonneg_int (workDuration s) \<and> nonneg_int (breakDuration s)"

text \<open>
  A settings or timer-state record whose properties the loader cannot read: a text that
  does not parse, or one that parses to \<^verbatim>\<open>null\<close>.
\<close>

fun unreadable :: "jsval item \<Rightarrow> bool" where
  "unreadable Unparsable = True"
| "unreadable (Parsed JNull) = True"
| "unreadable (Parsed Undefined) = True"
| "unreadable x = False"

text \<open>
  The value a record holds for a property: \<^verbatim>\<open>undefined\<close> where the record is missing or
  has no such property.
\<close>

fun stored_field :: "jsval item \<Rightarrow> string \<Rightarrow> jsval" where
  "stored_field (Parsed v) k = (case get_prop v k of None \<Rightarrow> Undefined | Some f \<Rightarrow> f)"
| "stored_field x k = Undefined"

text \<open>
  A stored duration that is neither absent nor falsy nor a number nor a boolean, so that
  its number is the runtime's conversion of it; and one that the runtime cannot convert.
\<close>

fun converted :: "jsval \<Rightarrow> bool" where
  "converted (JStr s) = (s \<noteq> [])"
| "converted (JArr xs) = True"
| "converted (JObj kvs) = True"
| "converted v = False"

definition unconvertible :: "(jsval \<Rightarrow> jsnum option) \<Rightarrow> jsval \<Rightarrow> bool" where
  "unconvertible coerce f \<longleftrightarrow> converted f \<and> coerce f = None"

text \<open>
  The settings record makes the loader throw when it is unreadable or one of its two
  durations cannot be converted.
\<close>

definition settings_throw :: "(jsval \<Rightarrow> jsnum option) \<Rightarrow> jsval item \<Rightarrow> bool" where
  "settings_throw coerce x \<longleftrightarrow>
     unreadable x \<or> unconvertible coerce (stored_field x ''workDuration'')
     \<or> unconvertible coerce (stored_field x ''breakDuration'')"

text \<open>
  The task list after the task record has been read without a throw; \<open>old\<close> is the list
  before the load.
\<close>

fun stored_tasks :: "'e tasks_value item \<Rightarrow> 'e list \<Rightarrow> 'e list" where
  "stored_tasks Absent old = []"
| "stored_tasks (Parsed (TasksArray ts)) old = ts"
| "stored_tasks x old = old"

text \<open>
  Stored data whose numbers are counts: in the settings and timer-state records, each of
  \<^verbatim>\<open>workDuration\<close>, \<^verbatim>\<open>breakDuration\<close> and \<^verbatim>\<open>remaining\<close> is absent or a non-negative
  integer. A record that is missing, or on which the loader throws, puts no condition.
\<close>

fun absent_or_count :: "jsval \<Rightarrow> bool" where
  "absent_or_count Undefined = True"
| "absent_or_count (JNum n) = nonneg_int n"
| "absent_or_count v = False"

fun clean_item :: "string list \<Rightarrow> jsval item \<Rightarrow> bool" where
  "clean_item ks (Parsed v) =
     list_all (\<lambda>k. case get_prop v k of None \<Rightarrow> True | Some f \<Rightarrow> absent_or_count f) ks"
| "clean_item ks x = True"

definition clean_storage :: "'e storage \<Rightarrow> bool" where
  "clean_storage st \<longleftrightarrow>
     clean_item [''workDuration'', ''breakDuration''] (pomodoro_settings st) \<and>
     clean_item [''remaining''] (pomodoro_state st)"

section \<open>Examples\<close>

text \<open>A running focus session with one second left, at the default durations.\<close>

definition one_second_left :: "task app" where
  "one_second_left = initial\<lparr>isRunning := True, remaining := Fin 1\<rparr>"

text \<open>
  A running focus session that has just reached zero, with two tasks, the first of them
  selected, and a new name typed into the task input.
\<close>

definition report_task :: task where
  "report_task =
     \<lparr> t_id = ''a'', t_name = utf16 ''Write report'', t_done = False, t_pomodoros = 2 \<rparr>"

definition mail_task :: task where
  "mail_task = \<lparr> t_id = ''b'', t_name = utf16 ''Read mail'', t_done = True, t_pomodoros = 0 \<rparr>"

definition session_over :: "task app" where
  "session_over =
     \<lparr> isRunning = True, isWorkSession = True, workDuration = Fin 1500,
       breakDuration = Fin 300, remaining = Fin 0, tasks = [report_task, mail_task],
       taskInput = utf16 ''  Plan week '', selectedTaskId = Some ''a'' \<rparr>"

text \<open>
  A browser with \<^verbatim>\<open>crypto.randomUUID\<close>, about to return \<^verbatim>\<open>c\<close>; a browser without
  it, at one millisecond; and two tasks added in that millisecond.
\<close>

definition uuid_c :: runtime where
  "uuid_c = \<lparr> randomUUID = Some ''c'', now = 0 \<rparr>"

definition no_uuid :: runtime where
  "no_uuid = \<lparr> randomUUID = None, now = 1700000000000 \<rparr>"

definition added_twice :: "task app" where
  "added_twice =
     addTask no_uuid (setTaskInput (utf16 ''Read mail'')
       (addTask no_uuid (setTaskInput (utf16 ''Write report'') initial)))"

text \<open>
  Stored data with sound settings and timer state beside a task record that does not parse;
  and stored data with a negative \<^verbatim>\<open>remaining\<close>.
\<close>

definition broken_tasks :: "'e storage" where
  "broken_tasks =
     \<lparr> pomodoro_tasks = Unparsable,
       pomodoro_settings = Parsed (JObj [(''workDuration'', JNum (Fin 600)),
                                         (''breakDuration'', JNum (Fin 120))]),
       pomodoro_state = Parsed (JObj [(''isWorkSession'', JBool False),
                                      (''remaining'', JNum (Fin 42))]) \<rparr>"

definition negative_remaining :: "'e storage" where
  "negative_remaining =
     \<lparr> pomodoro_tasks = Absent, pomodoro_settings = Absent,
       pomodoro_state = Parsed (JObj [(''isWorkSession'', JBool True),
                                      (''remaining'', JNum (Fin (- 5)))]) \<rparr>"

text \<open>
  The runtime's conversion where the examples convert nothing; and one that agrees with
  the runtime on the values the other examples store: an object with a \<^verbatim>\<open>toString\<close>
  property of its own cannot be converted, any other object is not a number, and of the
  strings only \<^verbatim>\<open>"0"\<close> and \<^verbatim>\<open>"abc"\<close> occur.
\<close>

definition no_coercion :: "jsval \<Rightarrow> jsnum option" where
  "no_coercion v = Some NaN"

fun sample_coercion :: "jsval \<Rightarrow> jsnum option" where
  "sample_coercion (JObj kvs) = (if map_of kvs ''toString'' = None then Some NaN else None)"
| "sample_coercion (JStr s) = (if s = ''0'' then Some (Fin 0) else Some NaN)"
| "sample_coercion v = Some NaN"

text \<open>
  Stored settings whose work duration is \<^verbatim>\<open>{"toString": null}\<close>, beside a sound timer
  state; stored settings whose work duration is the string \<^verbatim>\<open>"0"\<close>, and the state loaded
  from them; stored settings whose work duration is the string \<^verbatim>\<open>"abc"\<close> beside a
  timer state without \<^verbatim>\<open>remaining\<close>, and the state loaded from them.
\<close>

definition unconvertible_duration :: "'e storage" where
  "unconvertible_duration =
     \<lparr> pomodoro_tasks = Absent,
       pomodoro_settings = Parsed (JObj [(''workDuration'', JObj [(''toString'', JNull)])]),
       pomodoro_state = Parsed (JObj [(''isWorkSession'', JBool False),
                                      (''remaining'', JNum (Fin 42))]) \<rparr>"

definition zero_string :: "'e storage" where
  "zero_string =
     \<lparr> pomodoro_tasks = Absent,
       pomodoro_settings = Parsed (JObj [(''workDuration'', JStr ''0'')]),
       pomodoro_state = Absent \<rparr>"




section \<open>Properties of the timer\<close>

text \<open>
  C1, as stated: from a running state with \<open>remaining = 1\<close>, one tick gives the other
  session's full duration and flips the session kind. The callback only decrements while
  \<^verbatim>\<open>prev > 0\<close>, so the tick at 1 yields 0 and keeps the session kind: the statement
  fails on the example state.
\<close>

theorem tick_at_one_does_not_switch:
  "isRunning one_second_left \<and> remaining one_second_left = Fin 1 \<and>
   \<not> (remaining (tick one_second_left) = breakDuration one_second_left \<and>
      isWorkSession (tick one_second_left) = (\<not> isWorkSession one_second_left))"
  by (simp add: one_second_left_def initial_def tick_def DEFAULT_WORK_def DEFAULT_BREAK_def)

text \<open>
  C1, amended: in a running state, the tick at \<open>remaining = 1\<close> gives \<open>remaining = 0\<close>
  with the session kind unchanged; the tick at \<open>remaining = 0\<close> gives the other session's
  full configured duration and flips the session kind. Hence two ticks from
  \<open>remaining = 1\<close> reach the other session at its full duration.
\<close>

theorem tick_switches_at_zero:
  assumes "isRunning s"
  shows "(remaining s = Fin 1 \<longrightarrow>
            remaining (tick s) = Fin 0 \<and> isWorkSession (tick s) = isWorkSession s \<and>
            remaining (tick (tick s)) = (if isWorkSession s then breakDuration s else workDuration s) \<and>
            isWorkSession (tick (tick s)) = (\<not> isWorkSession s))
       \<and> (remaining s = Fin 0 \<longrightarrow>
            remaining (tick s) = (if isWorkSession s then breakDuration s else workDuration s) \<and>
            isWorkSession (tick s) = (\<not> isWorkSession s))"
  using assms by (simp add: tick_def Let_def)

theorem tick_switches_at_zero_witness:
  "isRunning one_second_left \<and> remaining one_second_left = Fin 1 \<and>
   remaining (tick one_second_left) = Fin 0 \<and> isWorkSession (tick one_second_left) \<and>
   remaining (tick (tick one_second_left)) = Fin 300 \<and>
   \<not> isWorkSession (tick (tick one_second_left))"
proof -
  have run: "isRunning one_second_left"
    by (simp add: one_second_left_def)
  have "remaining one_second_left = Fin 1" "isWorkSession one_second_left"
    "breakDuration one_second_left = Fin 300"
    by (simp_all add: one_second_left_def initial_def DEFAULT_BREAK_def)
  with run tick_switches_at_zero [OF run] show ?thesis
    by simp
qed





lemma clamp_minutes_range:
  "lo \<le> hi \<Longrightarrow> lo \<le> clamp_minutes lo hi x \<and> clamp_minutes lo hi x \<le> hi"
  by (cases x) auto

lemma clamped_seconds:
  assumes "x \<noteq> NaN" and "lo \<le> hi"
  shows "js_mul60 (Math_max (Fin (of_int lo)) (Math_min (Fin (of_int hi)) (Math_floor x))) =
         Fin (of_int (clamp_minutes lo hi x) * 60)"
proof (cases x)
  case (Fin r)
  have "max (of_int lo) (min (of_int hi) (of_int \<lfloor>r\<rfloor>)) =
        (of_int (clamp_minutes lo hi (Fin r)) :: rat)"
    using assms(2) by (simp add: min_def max_def)
  with Fin show ?thesis by simp
next
  case NaN
  with assms show ?thesis by simp
next
  case PosInf
  with assms show ?thesis by (simp add: max_def)
next
  case NegInf
  with assms show ?thesis by simp
qed

lemma work_seconds:
  "x \<noteq> NaN \<Longrightarrow>
   js_mul60 (Math_max (Fin 1) (Math_min (Fin 180) (Math_floor x))) =
     Fin (of_int (clamp_minutes 1 180 x) * 60)"
  using clamped_seconds [of x 1 180] by simp

lemma break_seconds:
  "x \<noteq> NaN \<Longrightarrow>
   js_mul60 (Math_max (Fin 1) (Math_min (Fin 60) (Math_floor x))) =
     Fin (of_int (clamp_minutes 1 60 x) * 60)"
  using clamped_seconds [of x 1 60] by simp

text \<open>
  C4: for every pair of requested numbers of minutes, \<^verbatim>\<open>updateDurations\<close> sets the work
  duration to the request clamped to 1..180 minutes and the break duration to the request
  clamped to 1..60 minutes (in seconds), sets \<^verbatim>\<open>remaining\<close> to the new duration of the
  session that is active, and leaves the session kind unchanged.
\<close>

theorem updateDurations_clamps:
  assumes "newWorkMin \<noteq> NaN" and "newBreakMin \<noteq> NaN"
  shows "workDuration (updateDurations newWorkMin newBreakMin s) =
           Fin (of_int (clamp_minutes 1 180 newWorkMin) * 60)
       \<and> 1 \<le> clamp_minutes 1 180 newWorkMin \<and> clamp_minutes 1 180 newWorkMin \<le> 180
       \<and> breakDuration (updateDurations newWorkMin newBreakMin s) =
           Fin (of_int (clamp_minutes 1 60 newBreakMin) * 60)
       \<and> 1 \<le> clamp_minutes 1 60 newBreakMin \<and> clamp_minutes 1 60 newBreakMin \<le> 60
       \<and> remaining (updateDurations newWorkMin newBreakMin s) =
           (if isWorkSession s then workDuration (updateDurations newWorkMin newBreakMin s)
            else breakDuration (updateDurations newWorkMin newBreakMin s))
       \<and> isWorkSession (updateDurations newWorkMin newBreakMin s) = isWorkSession s"
  using assms clamp_minutes_range [of 1 180 newWorkMin] clamp_minutes_range [of 1 60 newBreakMin]
  by (simp add: updateDurations_def Let_def work_seconds break_seconds)

theorem updateDurations_clamps_witness:
  "Fin 200 \<noteq> NaN \<and> Fin (1 / 2) \<noteq> NaN \<and>
   workDuration (updateDurations (Fin 200) (Fin (1 / 2)) (initial :: task app)) = Fin 10800 \<and>
   breakDuration (updateDurations (Fin 200) (Fin (1 / 2)) (initial :: task app)) = Fin 60 \<and>
   remaining (updateDurations (Fin 200) (Fin (1 / 2)) (initial :: task app)) = Fin 10800 \<and>
   isWorkSession (updateDurations (Fin 200) (Fin (1 / 2)) (initial :: task app))"
proof -
  have ne: "Fin 200 \<noteq> NaN" "Fin (1 / 2) \<noteq> NaN" by simp_all
  have "isWorkSession (initial :: task app)" by (simp add: initial_def)
  with updateDurations_clamps [OF ne, of "initial :: task app"] show ?thesis by simp
qed

section \<open>Properties of the task list\<close>

lemma all_dropWhile: "(\<forall>x \<in> set (dropWhile P xs). P x) \<longleftrightarrow> (\<forall>x \<in> set xs. P x)"
proof
  assume all: "\<forall>x \<in> set (dropWhile P xs). P x"
  have "dropWhile P xs = []"
  proof (rule ccontr)
    assume ne: "dropWhile P xs \<noteq> []"
    then have "\<not> P (hd (dropWhile P xs))" by (rule hd_dropWhile)
    moreover from ne have "hd (dropWhile P xs) \<in> set (dropWhile P xs)" by (rule hd_in_set)
    ultimately show False using all by blast
  qed
  then show "\<forall>x \<in> set xs. P x" by (simp only: dropWhile_eq_Nil_conv)
next
  assume "\<forall>x \<in> set xs. P x"
  then show "\<forall>x \<in> set (dropWhile P xs). P x" by (blast dest: set_dropWhileD)
qed

lemma trim_empty_iff: "trim s = [] \<longleftrightarrow> (\<forall>c \<in> set s. is_ws c)"
  by (simp add: trim_def all_dropWhile)

text \<open>
  C5, as stated: an add with a non-empty name gives the new task a fresh unique id. The
  identifier is \<^verbatim>\<open>crypto.randomUUID()\<close> where the browser has it and otherwise the
  millisecond timestamp as a decimal; with the timestamp, two adds within one millisecond
  give both tasks the same identifier.
\<close>

theorem same_millisecond_same_id:
  "map t_name (tasks added_twice) = [utf16 ''Read mail'', utf16 ''Write report'']
 \<and> map t_id (tasks added_twice) = [''1700000000000'', ''1700000000000'']
 \<and> \<not> distinct (map t_id (tasks added_twice))"
  by (simp add: added_twice_def addTask_def setTaskInput_def initial_def Let_def trim_def
      is_ws_def utf16_def newTaskId_def no_uuid_def String_int_def digits.simps digit_def)

text \<open>
  C5, amended: \<^verbatim>\<open>addTask\<close> with an empty input, or one made only of JavaScript white
  space and line terminators, changes nothing. With any other input it puts a new task at
  the head of the list, named by the trimmed input, with \<open>pomodoros = 0\<close> and
  \<open>done = False\<close>, and the tasks that were there follow unchanged in their order. The
  identifier of the new task is \<^verbatim>\<open>crypto.randomUUID()\<close> where the browser has it and
  otherwise the decimal millisecond timestamp; the identifiers of the new list are unique
  exactly when those of the old list were and that value is not among them.
\<close>

theorem addTask_prepends:
  "((\<forall>c \<in> set (taskInput s). is_ws c) \<longrightarrow> addTask env s = s)
 \<and> (\<not> (\<forall>c \<in> set (taskInput s). is_ws c) \<longrightarrow>
      trim (taskInput s) \<noteq> [] \<and>
      tasks (addTask env s) =
        \<lparr> t_id = newTaskId env, t_name = trim (taskInput s), t_done = False,
          t_pomodoros = 0 \<rparr> # tasks s \<and>
      (distinct (map t_id (tasks (addTask env s))) \<longleftrightarrow>
         distinct (map t_id (tasks s)) \<and> newTaskId env \<notin> t_id ` set (tasks s)))
 \<and> (\<forall>u. randomUUID env = Some u \<longrightarrow> newTaskId env = u)
 \<and> (randomUUID env = None \<longrightarrow> newTaskId env = String_int (now env))"
  using trim_empty_iff [of "taskInput s"]
  by (auto simp: addTask_def Let_def newTaskId_def)

theorem addTask_prepends_witness:
  "addTask uuid_c (session_over\<lparr>taskInput := []\<rparr>) = session_over\<lparr>taskInput := []\<rparr> \<and>
   addTask uuid_c (session_over\<lparr>taskInput := [0x0020, 0x00A0, 0x3000]\<rparr>) =
     session_over\<lparr>taskInput := [0x0020, 0x00A0, 0x3000]\<rparr> \<and>
   tasks (addTask uuid_c (session_over\<lparr>taskInput := utf16 ''Write report''\<rparr>)) =
     [\<lparr> t_id = ''c'', t_name = utf16 ''Write report'', t_done = False, t_pomodoros = 0 \<rparr>,
      report_task, mail_task] \<and>
   distinct (map t_id (tasks (addTask uuid_c (session_over\<lparr>taskInput := utf16 ''Write report''\<rparr>))))"
proof -
  define typed where "typed = session_over\<lparr>taskInput := utf16 ''Write report''\<rparr>"
  have blank: "\<forall>c \<in> set (taskInput (session_over\<lparr>taskInput := []\<rparr>)). is_ws c"
    "\<forall>c \<in> set (taskInput (session_over\<lparr>taskInput := [0x0020, 0x00A0, 0x3000]\<rparr>)). is_ws c"
    by (simp_all add: is_ws_def)
  have named: "\<not> (\<forall>c \<in> set (taskInput typed). is_ws c)"
    by (simp add: typed_def is_ws_def utf16_def)
  have fresh: "distinct (map t_id (tasks typed))" "newTaskId uuid_c \<notin> t_id ` set (tasks typed)"
    by (simp_all add: typed_def session_over_def report_task_def mail_task_def newTaskId_def
        uuid_c_def)
  have name: "trim (taskInput typed) = utf16 ''Write report''"
    by (simp add: typed_def trim_def is_ws_def utf16_def)
  have ts: "tasks typed = [report_task, mail_task]"
    by (simp add: typed_def session_over_def)
  have uuid: "randomUUID uuid_c = Some ''c''"
    by (simp add: uuid_c_def)
  from addTask_prepends [of "session_over\<lparr>taskInput := []\<rparr>" uuid_c] blank(1)
  have 1: "addTask uuid_c (session_over\<lparr>taskInput := []\<rparr>) = session_over\<lparr>taskInput := []\<rparr>"
    by blast
  from addTask_prepends [of "session_over\<lparr>taskInput := [0x0020, 0x00A0, 0x3000]\<rparr>" uuid_c]
    blank(2)
  have 2: "addTask uuid_c (session_over\<lparr>taskInput := [0x0020, 0x00A0, 0x3000]\<rparr>) =
           session_over\<lparr>taskInput := [0x0020, 0x00A0, 0x3000]\<rparr>"
    by blast
  note t = addTask_prepends [of typed uuid_c]
  from t uuid have id: "newTaskId uuid_c = ''c''" by blast
  from t named have 3: "tasks (addTask uuid_c typed) =
       \<lparr> t_id = newTaskId uuid_c, t_name = trim (taskInput typed), t_done = False,
         t_pomodoros = 0 \<rparr> # tasks typed"
    by blast
  from t named fresh have 4: "distinct (map t_id (tasks (addTask uuid_c typed)))"
    by blast
  from 1 2 3 4 show ?thesis
    unfolding typed_def [symmetric] by (simp only: name ts id)
qed

text \<open>
  C10: on an add that succeeds (the trimmed input is not empty), if no task is selected
  (\<^verbatim>\<open>selectedTaskId\<close> is \<^verbatim>\<open>null\<close>) the selection becomes the new task's identifier; if a
  task is selected the selection is unchanged.
\<close>

theorem addTask_selection:
  assumes "trim (taskInput s) \<noteq> []"
  shows "(selectedTaskId s = None \<longrightarrow>
            selectedTaskId (addTask env s) = Some (newTaskId env) \<and>
            t_id (hd (tasks (addTask env s))) = newTaskId env)
       \<and> (selectedTaskId s = Some i \<and> truthy_id (selectedTaskId s) \<longrightarrow>
            selectedTaskId (addTask env s) = Some i)"
  using assms by (auto simp: addTask_def Let_def)

theorem addTask_selection_witness:
  "trim (taskInput session_over) \<noteq> [] \<and>
   selectedTaskId (session_over\<lparr>selectedTaskId := None\<rparr>) = None \<and>
   selectedTaskId (addTask uuid_c (session_over\<lparr>selectedTaskId := None\<rparr>)) = Some ''c'' \<and>
   selectedTaskId session_over = Some ''a'' \<and> truthy_id (selectedTaskId session_over) \<and>
   selectedTaskId (addTask uuid_c session_over) = Some ''a''"
proof -
  have name: "trim (taskInput session_over) = utf16 ''Plan week''"
    "trim (taskInput (session_over\<lparr>selectedTaskId := None\<rparr>)) = utf16 ''Plan week''"
    by (simp_all add: session_over_def trim_def is_ws_def utf16_def)
  then have ne: "trim (taskInput session_over) \<noteq> []"
    "trim (taskInput (session_over\<lparr>selectedTaskId := None\<rparr>)) \<noteq> []"
    by (simp_all add: utf16_def)
  have sel: "selectedTaskId session_over = Some ''a''" "truthy_id (selectedTaskId session_over)"
    "selectedTaskId (session_over\<lparr>selectedTaskId := None\<rparr>) = None"
    by (simp_all add: session_over_def)
  have id: "newTaskId uuid_c = ''c''"
    by (simp add: newTaskId_def uuid_c_def)
  from addTask_selection [OF ne(1), where i = "''a''" and env = uuid_c] sel(1,2)
  have "selectedTaskId (addTask uuid_c session_over) = Some ''a''" by blast
  moreover from addTask_selection [OF ne(2), where env = uuid_c] sel(3)
  have "selectedTaskId (addTask uuid_c (session_over\<lparr>selectedTaskId := None\<rparr>)) = Some ''c''"
    unfolding id by blast
  ultimately show ?thesis using ne(1) sel by simp
qed

lemma tick_no_selection:
  "selectedTaskId s = None \<Longrightarrow> tasks (tick s) = tasks s \<and> selectedTaskId (tick s) = None"
  by (simp add: tick_def Let_def)

lemma ticks_no_selection:
  "selectedTaskId s = None \<Longrightarrow>
     tasks ((tick ^^ n) s) = tasks s \<and> selectedTaskId ((tick ^^ n) s) = None"
  by (induction n) (simp_all add: tick_no_selection)

text \<open>
  C6: \<^verbatim>\<open>deleteTask\<close> removes from the list the task with the given identifier and keeps
  the others in their order. If that identifier is the current selection, the selection
  becomes \<^verbatim>\<open>null\<close>, and then no number of ticks, whatever sessions they complete,
  changes any task; if the selection is anything else it is unchanged.
\<close>

theorem deleteTask_clears_selection:
  "tasks (deleteTask i s) = filter (\<lambda>t. t_id t \<noteq> i) (tasks s)
 \<and> i \<notin> t_id ` set (tasks (deleteTask i s))
 \<and> (selectedTaskId s = Some i \<longrightarrow>
       selectedTaskId (deleteTask i s) = None \<and>
       (\<forall>n. tasks ((tick ^^ n) (deleteTask i s)) = tasks (deleteTask i s)))
 \<and> (selectedTaskId s \<noteq> Some i \<longrightarrow> selectedTaskId (deleteTask i s) = selectedTaskId s)"
proof -
  have "selectedTaskId s = Some i \<longrightarrow>
       (\<forall>n. tasks ((tick ^^ n) (deleteTask i s)) = tasks (deleteTask i s))"
    using ticks_no_selection [of "deleteTask i s"] by (simp add: deleteTask_def)
  then show ?thesis by (auto simp: deleteTask_def)
qed

theorem deleteTask_clears_selection_witness:
  "selectedTaskId session_over = Some ''a'' \<and>
   tasks (deleteTask ''a'' session_over) = [mail_task] \<and>
   selectedTaskId (deleteTask ''a'' session_over) = None \<and>
   tasks (tick (tick (deleteTask ''a'' session_over))) = [mail_task] \<and>
   selectedTaskId session_over \<noteq> Some ''b'' \<and>
   tasks (deleteTask ''b'' session_over) = [report_task] \<and>
   selectedTaskId (deleteTask ''b'' session_over) = Some ''a''"
proof -
  have sel: "selectedTaskId session_over = Some ''a''" "selectedTaskId session_over \<noteq> Some ''b''"
    by (simp_all add: session_over_def)
  have keep: "filter (\<lambda>t. t_id t \<noteq> ''a'') (tasks session_over) = [mail_task]"
    "filter (\<lambda>t. t_id t \<noteq> ''b'') (tasks session_over) = [report_task]"
    by (simp_all add: session_over_def report_task_def mail_task_def)
  note a = deleteTask_clears_selection [of "''a''" session_over]
  note b = deleteTask_clears_selection [of "''b''" session_over]
  from a sel(1) have "tasks ((tick ^^ Suc (Suc 0)) (deleteTask ''a'' session_over)) =
      tasks (deleteTask ''a'' session_over)"
    by blast
  then have "tasks (tick (tick (deleteTask ''a'' session_over))) = tasks (deleteTask ''a'' session_over)"
    by simp
  with a b sel show ?thesis by (simp add: keep)
qed

lemma map_unmatched: "i \<notin> t_id ` set ts \<Longrightarrow> map (\<lambda>t. if t_id t = i then f t else t) ts = ts"
  by (induction ts) auto

lemma filter_unmatched: "i \<notin> t_id ` set ts \<Longrightarrow> filter (\<lambda>t. t_id t \<noteq> i) ts = ts"
  by (induction ts) auto

text \<open>
  C7: \<^verbatim>\<open>toggleTaskDone\<close>, \<^verbatim>\<open>deleteTask\<close> and \<^verbatim>\<open>editTaskName\<close> have no failing path (each
  is a total function from states to states, with no error result), and for an identifier
  that occurs nowhere in the task list they leave the task list unchanged; the first and
  the last leave the whole state unchanged.
\<close>

theorem unknown_id_is_noop:
  assumes "i \<notin> t_id ` set (tasks s)"
  shows "toggleTaskDone i s = s \<and> editTaskName i name s = s \<and> tasks (deleteTask i s) = tasks s"
  using assms
  by (simp add: toggleTaskDone_def editTaskName_def deleteTask_def map_unmatched filter_unmatched)

theorem unknown_id_is_noop_witness:
  "''zz'' \<notin> t_id ` set (tasks session_over) \<and>
   toggleTaskDone ''zz'' session_over = session_over \<and>
   editTaskName ''zz'' (utf16 ''Other'') session_over = session_over \<and>
   tasks (deleteTask ''zz'' session_over) = [report_task, mail_task]"
proof -
  have unknown: "''zz'' \<notin> t_id ` set (tasks session_over)"
    by (simp add: session_over_def report_task_def mail_task_def)
  have "tasks session_over = [report_task, mail_task]"
    by (simp add: session_over_def)
  with unknown unknown_id_is_noop [OF unknown, of "utf16 ''Other''"] show ?thesis by simp
qed

section \<open>Properties of persistence\<close>

lemma read_tasks_cases:
  "read_tasks st s =
     (if pomodoro_tasks st = Unparsable then None
      else Some (s\<lparr>tasks := stored_tasks (pomodoro_tasks st) (tasks s)\<rparr>))"
proof (cases "pomodoro_tasks st")
  case Absent
  then show ?thesis by (simp add: read_tasks_def)
next
  case Unparsable
  then show ?thesis by (simp add: read_tasks_def)
next
  case (Parsed v)
  then show ?thesis by (cases v) (simp_all add: read_tasks_def)
qed

lemma readable_obtain:
  assumes "\<not> unreadable x"
  obtains v where "parse_or x (JObj []) = Some v" and "v \<noteq> JNull" and "v \<noteq> Undefined"
proof (cases x)
  case Absent
  then show ?thesis using that [of "JObj []"] by simp
next
  case Unparsable
  with assms show ?thesis by simp
next
  case (Parsed v)
  with assms have "v \<noteq> JNull" "v \<noteq> Undefined" by auto
  with Parsed show ?thesis using that [of v] by simp
qed

lemma unreadable_parse:
  assumes "unreadable x"
  shows "parse_or x (JObj []) = None \<or> parse_or x (JObj []) = Some JNull
         \<or> parse_or x (JObj []) = Some Undefined"
proof (cases x)
  case (Parsed v)
  with assms show ?thesis by (cases v) simp_all
qed (use assms in simp_all)

lemma get_prop_defined:
  assumes "v \<noteq> JNull" and "v \<noteq> Undefined"
  obtains f where "get_prop v k = Some f"
  using assms by (cases v) auto

lemma stored_field_read:
  assumes "parse_or x (JObj []) = Some v" and "get_prop v k = Some f"
  shows "stored_field x k = f"
proof (cases x)
  case Absent
  with assms show ?thesis by auto
next
  case Unparsable
  with assms show ?thesis by simp
next
  case (Parsed u)
  with assms show ?thesis by simp
qed

lemma converted_truthy: "converted f \<Longrightarrow> truthy f"
  by (cases f) simp_all

lemma field_number:
  "Number coerce (js_or f (JNum d)) =
     (if converted f then coerce f
      else if \<not> truthy f then Some d
      else (case f of JNum n \<Rightarrow> Some n | _ \<Rightarrow> Some (Fin 1)))"
  by (cases f) (simp_all add: js_or_def)

lemma read_settings_throw:
  assumes "settings_throw coerce (pomodoro_settings st)"
  shows "read_settings coerce st s = None"
proof (cases "unreadable (pomodoro_settings st)")
  case True
  then show ?thesis
    using unreadable_parse [of "pomodoro_settings st"] by (auto simp: read_settings_def)
next
  case False
  then obtain v where v: "parse_or (pomodoro_settings st) (JObj []) = Some v"
    "v \<noteq> JNull" "v \<noteq> Undefined" by (rule readable_obtain)
  from v(2,3) obtain wv where wv: "get_prop v ''workDuration'' = Some wv"
    by (rule get_prop_defined)
  from v(2,3) obtain bv where bv: "get_prop v ''breakDuration'' = Some bv"
    by (rule get_prop_defined)
  have f: "stored_field (pomodoro_settings st) ''workDuration'' = wv"
    "stored_field (pomodoro_settings st) ''breakDuration'' = bv"
    using v(1) wv bv by (simp_all add: stored_field_read)
  from assms False have "unconvertible coerce wv \<or> unconvertible coerce bv"
    by (simp add: settings_throw_def f)
  then show ?thesis
    by (auto simp: read_settings_def v(1) wv bv field_number unconvertible_def
        split: option.splits)
qed

lemma read_settings_run:
  assumes "\<not> settings_throw coerce (pomodoro_settings st)"
  obtains wd bd where
    "read_settings coerce st s =
       Some (s\<lparr>workDuration := finite_or wd DEFAULT_WORK,
               breakDuration := finite_or bd DEFAULT_BREAK\<rparr>, wd, bd)"
    and "Number coerce (js_or (stored_field (pomodoro_settings st) ''workDuration'')
           (JNum DEFAULT_WORK)) = Some wd"
    and "Number coerce (js_or (stored_field (pomodoro_settings st) ''breakDuration'')
           (JNum DEFAULT_BREAK)) = Some bd"
proof -
  from assms have readable: "\<not> unreadable (pomodoro_settings st)"
    by (simp add: settings_throw_def)
  then obtain v where v: "parse_or (pomodoro_settings st) (JObj []) = Some v"
    "v \<noteq> JNull" "v \<noteq> Undefined" by (rule readable_obtain)
  from v(2,3) obtain wv where wv: "get_prop v ''workDuration'' = Some wv"
    by (rule get_prop_defined)
  from v(2,3) obtain bv where bv: "get_prop v ''breakDuration'' = Some bv"
    by (rule get_prop_defined)
  have f: "stored_field (pomodoro_settings st) ''workDuration'' = wv"
    "stored_field (pomodoro_settings st) ''breakDuration'' = bv"
    using v(1) wv bv by (simp_all add: stored_field_read)
  from assms have conv: "\<not> unconvertible coerce wv" "\<not> unconvertible coerce bv"
    by (simp_all add: settings_throw_def f)
  have "\<exists>wd. Number coerce (js_or wv (JNum DEFAULT_WORK)) = Some wd"
    using conv(1) by (auto simp: field_number unconvertible_def split: jsval.splits)
  then obtain wd where wd: "Number coerce (js_or wv (JNum DEFAULT_WORK)) = Some wd" ..
  have "\<exists>bd. Number coerce (js_or bv (JNum DEFAULT_BREAK)) = Some bd"
    using conv(2) by (auto simp: field_number unconvertible_def split: jsval.splits)
  then obtain bd where bd: "Number coerce (js_or bv (JNum DEFAULT_BREAK)) = Some bd" ..
  show ?thesis
    by (rule that [OF _ wd [folded f] bd [folded f]]) (simp add: read_settings_def v(1) wv bv wd bd)
qed

lemma read_state_unreadable:
  assumes "unreadable (pomodoro_state st)"
  shows "read_state st wd bd s = None"
  using unreadable_parse [OF assms] by (auto simp: read_state_def)

lemma read_state_run:
  assumes "\<not> unreadable (pomodoro_state st)"
  obtains s' where "read_state st wd bd s = Some s'"
    and "\<forall>b. stored_field (pomodoro_state st) ''isWorkSession'' = JBool b \<longrightarrow> isWorkSession s' = b"
    and "(\<forall>b. stored_field (pomodoro_state st) ''isWorkSession'' \<noteq> JBool b) \<longrightarrow>
           isWorkSession s' = isWorkSession s"
    and "tasks s' = tasks s" and "workDuration s' = workDuration s"
    and "breakDuration s' = breakDuration s"
    and "\<forall>q. stored_field (pomodoro_state st) ''remaining'' = JNum (Fin q) \<longrightarrow> remaining s' = Fin q"
proof -
  from assms obtain v where v: "parse_or (pomodoro_state st) (JObj []) = Some v"
    "v \<noteq> JNull" "v \<noteq> Undefined" by (rule readable_obtain)
  from v(2,3) obtain iw where iw: "get_prop v ''isWorkSession'' = Some iw"
    by (rule get_prop_defined)
  from v(2,3) obtain rv where rv: "get_prop v ''remaining'' = Some rv"
    by (rule get_prop_defined)
  have f: "stored_field (pomodoro_state st) ''isWorkSession'' = iw"
    "stored_field (pomodoro_state st) ''remaining'' = rv"
    using v(1) iw rv by (simp_all add: stored_field_read)
  define s1 where "s1 = (case iw of JBool b \<Rightarrow> s\<lparr>isWorkSession := b\<rparr> | _ \<Rightarrow> s)"
  define s' where "s' = (case rv of JNum (Fin r) \<Rightarrow> s1\<lparr>remaining := Fin r\<rparr>
                         | _ \<Rightarrow> s1\<lparr>remaining := (if truthy iw then wd else bd)\<rparr>)"
  have run: "read_state st wd bd s = Some s'"
    unfolding read_state_def s'_def s1_def
    by (simp add: v(1) iw rv Let_def split: jsval.splits jsnum.splits)
  have s1: "\<forall>b. iw = JBool b \<longrightarrow> isWorkSession s1 = b"
    "(\<forall>b. iw \<noteq> JBool b) \<longrightarrow> isWorkSession s1 = isWorkSession s"
    "tasks s1 = tasks s" "workDuration s1 = workDuration s" "breakDuration s1 = breakDuration s"
    unfolding s1_def by (cases iw; auto)+
  have keep: "isWorkSession s' = isWorkSession s1" "tasks s' = tasks s1"
    "workDuration s' = workDuration s1" "breakDuration s' = breakDuration s1"
    unfolding s'_def by (simp_all split: jsval.splits jsnum.splits)
  have rem: "\<forall>q. rv = JNum (Fin q) \<longrightarrow> remaining s' = Fin q"
    unfolding s'_def by simp
  show ?thesis
    by (rule that [OF run]) (simp_all add: keep s1 rem f)
qed

lemma load_catch_overrides:
  "load_catch (s\<lparr>workDuration := w, breakDuration := b\<rparr>) = load_catch s"
  by (simp add: load_catch_def)

lemma load_tasks_unparsable:
  "pomodoro_tasks st = Unparsable \<Longrightarrow> load coerce st s = load_catch s"
  by (simp add: load_def read_tasks_cases)

lemma load_settings_throw:
  assumes "pomodoro_tasks st \<noteq> Unparsable" and "settings_throw coerce (pomodoro_settings st)"
  shows "load coerce st s = load_catch (s\<lparr>tasks := stored_tasks (pomodoro_tasks st) (tasks s)\<rparr>)"
  using assms by (simp add: load_def read_tasks_cases read_settings_throw)

lemma load_state_unreadable:
  assumes "pomodoro_tasks st \<noteq> Unparsable"
    and "\<not> settings_throw coerce (pomodoro_settings st)"
    and "unreadable (pomodoro_state st)"
  shows "load coerce st s = load_catch (s\<lparr>tasks := stored_tasks (pomodoro_tasks st) (tasks s)\<rparr>)"
proof -
  define s1 where "s1 = s\<lparr>tasks := stored_tasks (pomodoro_tasks st) (tasks s)\<rparr>"
  from assms(2) obtain wd bd where
    "read_settings coerce st s1 =
       Some (s1\<lparr>workDuration := finite_or wd DEFAULT_WORK,
               breakDuration := finite_or bd DEFAULT_BREAK\<rparr>, wd, bd)"
    by (rule read_settings_run)
  then show ?thesis
    using assms(1,3) unfolding s1_def [symmetric]
    by (simp add: load_def read_tasks_cases s1_def [symmetric] read_state_unreadable
        load_catch_overrides)
qed

lemma load_run:
  assumes "pomodoro_tasks st \<noteq> Unparsable"
    and "\<not> settings_throw coerce (pomodoro_settings st)"
    and "\<not> unreadable (pomodoro_state st)"
  obtains wd bd where
    "Number coerce (js_or (stored_field (pomodoro_settings st) ''workDuration'')
       (JNum DEFAULT_WORK)) = Some wd"
    and "Number coerce (js_or (stored_field (pomodoro_settings st) ''breakDuration'')
       (JNum DEFAULT_BREAK)) = Some bd"
    and "tasks (load coerce st s) = stored_tasks (pomodoro_tasks st) (tasks s)"
    and "workDuration (load coerce st s) = finite_or wd DEFAULT_WORK"
    and "breakDuration (load coerce st s) = finite_or bd DEFAULT_BREAK"
    and "\<forall>b. stored_field (pomodoro_state st) ''isWorkSession'' = JBool b \<longrightarrow>
           isWorkSession (load coerce st s) = b"
    and "(\<forall>b. stored_field (pomodoro_state st) ''isWorkSession'' \<noteq> JBool b) \<longrightarrow>
           isWorkSession (load coerce st s) = isWorkSession s"
    and "\<forall>q. stored_field (pomodoro_state st) ''remaining'' = JNum (Fin q) \<longrightarrow>
           remaining (load coerce st s) = Fin q"
proof -
  define s1 where "s1 = s\<lparr>tasks := stored_tasks (pomodoro_tasks st) (tasks s)\<rparr>"
  from assms(2) obtain wd bd where rs: "read_settings coerce st s1 =
       Some (s1\<lparr>workDuration := finite_or wd DEFAULT_WORK,
               breakDuration := finite_or bd DEFAULT_BREAK\<rparr>, wd, bd)"
    and wd: "Number coerce (js_or (stored_field (pomodoro_settings st) ''workDuration'')
           (JNum DEFAULT_WORK)) = Some wd"
    and bd: "Number coerce (js_or (stored_field (pomodoro_settings st) ''breakDuration'')
           (JNum DEFAULT_BREAK)) = Some bd"
    by (rule read_settings_run)
  define s2 where "s2 = s1\<lparr>workDuration := finite_or wd DEFAULT_WORK,
                          breakDuration := finite_or bd DEFAULT_BREAK\<rparr>"
  from assms(3) obtain s3 where s3: "read_state st wd bd s2 = Some s3"
    "\<forall>b. stored_field (pomodoro_state st) ''isWorkSession'' = JBool b \<longrightarrow> isWorkSession s3 = b"
    "(\<forall>b. stored_field (pomodoro_state st) ''isWorkSession'' \<noteq> JBool b) \<longrightarrow>
           isWorkSession s3 = isWorkSession s2"
    "tasks s3 = tasks s2" "workDuration s3 = workDuration s2" "breakDuration s3 = breakDuration s2"
    "\<forall>q. stored_field (pomodoro_state st) ''remaining'' = JNum (Fin q) \<longrightarrow> remaining s3 = Fin q"
    by (rule read_state_run [where wd = wd and bd = bd and s = s2])
  have l: "load coerce st s = s3"
    using assms(1) by (simp add: load_def read_tasks_cases s1_def [symmetric] rs
        s2_def [symmetric] s3(1))
  show ?thesis
    by (rule that [OF wd bd]) (use s3 in \<open>simp_all add: l s2_def s1_def\<close>)
qed

text \<open>
  C3, as stated: a malformed record falls back to its default and does not keep the other
  records from being loaded. The three reads share one \<^verbatim>\<open>try\<close> block whose
  \<^verbatim>\<open>catch\<close> resets the durations and \<^verbatim>\<open>remaining\<close>. With a task record that does not
  parse, sound stored settings (600 and 120 seconds) and a sound stored timer state (break
  session, 42 seconds) are not loaded, while they are when the task record is merely
  missing; a timer-state record that does not parse discards the stored settings, which
  had been read before it; a stored duration that cannot be converted to a number keeps
  the timer state from being loaded; and a task record that parses to an array with a
  \<^verbatim>\<open>null\<close> element does not fall back to the empty list but is loaded as it is.
\<close>

theorem broken_record_blocks_the_others:
  "pomodoro_tasks (broken_tasks :: task storage) = Unparsable
 \<and> workDuration (load no_coercion broken_tasks (initial :: task app)) = Fin 1500
 \<and> remaining (load no_coercion broken_tasks (initial :: task app)) = Fin 1500
 \<and> isWorkSession (load no_coercion broken_tasks (initial :: task app))
 \<and> workDuration (load no_coercion (broken_tasks\<lparr>pomodoro_tasks := Absent\<rparr>)
      (initial :: task app)) = Fin 600
 \<and> remaining (load no_coercion (broken_tasks\<lparr>pomodoro_tasks := Absent\<rparr>)
      (initial :: task app)) = Fin 42
 \<and> \<not> isWorkSession (load no_coercion (broken_tasks\<lparr>pomodoro_tasks := Absent\<rparr>)
      (initial :: task app))
 \<and> workDuration (load no_coercion
      (broken_tasks\<lparr>pomodoro_tasks := Absent, pomodoro_state := Unparsable\<rparr>)
      (initial :: task app)) = Fin 1500
 \<and> isWorkSession (load sample_coercion unconvertible_duration (initial :: task app))
 \<and> remaining (load sample_coercion unconvertible_duration (initial :: task app)) = Fin 1500
 \<and> tasks (load no_coercion (broken_tasks\<lparr>pomodoro_tasks := Parsed (TasksArray [JNull])\<rparr>)
      (initial :: jsval app)) = [JNull]"
  by (simp add: broken_tasks_def unconvertible_duration_def load_def read_tasks_def
      read_settings_def read_state_def load_catch_def initial_def DEFAULT_WORK_def
      DEFAULT_BREAK_def js_or_def Let_def no_coercion_def)

text \<open>
  C3, amended: the loader reads the task, settings and timer-state records in this order
  inside one \<^verbatim>\<open>try\<close> block. When no read throws, each record is loaded independently of
  the others, with a default for each field. The task list is empty for a missing record,
  the stored array as it is (whatever its elements) for a record that parses to an array,
  and as it was for one that parses to anything else. Each duration is its default where
  the settings record is missing or the stored value is missing, falsy (\<^verbatim>\<open>null\<close>,
  \<^verbatim>\<open>false\<close>, 0, the empty string) or infinite; it is the stored number where that is
  finite and not zero, 1 for \<^verbatim>\<open>true\<close>, and for any other stored value the number the
  runtime converts it to, or the default if that is not finite. The session kind is a
  stored boolean \<^verbatim>\<open>isWorkSession\<close> and otherwise as it was. A finite stored
  \<^verbatim>\<open>remaining\<close> is taken as it is. A read throws when the task record does not parse,
  when the settings or timer-state record does not parse or is \<^verbatim>\<open>null\<close>, or when a
  stored duration cannot be converted to a number. Then the load stops there: both
  durations and \<^verbatim>\<open>remaining\<close> are set to their defaults whatever the settings record
  holds, the session kind is not loaded, and only a task list read before the throw is
  kept.
\<close>

theorem load_falls_back_per_record:
  fixes coerce :: "jsval \<Rightarrow> jsnum option" and st :: "'e storage" and s :: "'e app"
  defines "r \<equiv> load coerce st s"
    and "stored_work \<equiv> stored_field (pomodoro_settings st) ''workDuration''"
    and "stored_break \<equiv> stored_field (pomodoro_settings st) ''breakDuration''"
    and "kind \<equiv> stored_field (pomodoro_state st) ''isWorkSession''"
    and "stored_left \<equiv> stored_field (pomodoro_state st) ''remaining''"
  shows
  "(pomodoro_tasks st \<noteq> Unparsable \<and> \<not> settings_throw coerce (pomodoro_settings st) \<and>
      \<not> unreadable (pomodoro_state st) \<longrightarrow>
        tasks r = stored_tasks (pomodoro_tasks st) (tasks s)
      \<and> (\<not> truthy stored_work \<longrightarrow> workDuration r = DEFAULT_WORK)
      \<and> (\<forall>q. stored_work = JNum (Fin q) \<and> q \<noteq> 0 \<longrightarrow> workDuration r = Fin q)
      \<and> (stored_work = JNum PosInf \<or> stored_work = JNum NegInf \<longrightarrow> workDuration r = DEFAULT_WORK)
      \<and> (stored_work = JBool True \<longrightarrow> workDuration r = Fin 1)
      \<and> (\<forall>n. converted stored_work \<and> coerce stored_work = Some n \<longrightarrow> workDuration r = finite_or n DEFAULT_WORK)
      \<and> (\<not> truthy stored_break \<longrightarrow> breakDuration r = DEFAULT_BREAK)
      \<and> (\<forall>q. stored_break = JNum (Fin q) \<and> q \<noteq> 0 \<longrightarrow> breakDuration r = Fin q)
      \<and> (stored_break = JNum PosInf \<or> stored_break = JNum NegInf \<longrightarrow> breakDuration r = DEFAULT_BREAK)
      \<and> (stored_break = JBool True \<longrightarrow> breakDuration r = Fin 1)
      \<and> (\<forall>n. converted stored_break \<and> coerce stored_break = Some n \<longrightarrow> breakDuration r = finite_or n DEFAULT_BREAK)
      \<and> (\<forall>b. kind = JBool b \<longrightarrow> isWorkSession r = b)
      \<and> ((\<forall>b. kind \<noteq> JBool b) \<longrightarrow> isWorkSession r = isWorkSession s)
      \<and> (\<forall>q. stored_left = JNum (Fin q) \<longrightarrow> remaining r = Fin q))
 \<and> stored_tasks Absent (tasks s) = []
 \<and> (\<forall>ts. stored_tasks (Parsed (TasksArray ts)) (tasks s) = ts)
 \<and> stored_tasks (Parsed NotArray) (tasks s) = tasks s
 \<and> (\<forall>k. stored_field Absent k = Undefined)
 \<and> (pomodoro_tasks st = Unparsable \<longrightarrow> r = load_catch s)
 \<and> (pomodoro_tasks st \<noteq> Unparsable \<and>
      (settings_throw coerce (pomodoro_settings st) \<or> unreadable (pomodoro_state st)) \<longrightarrow>
        r = load_catch (s\<lparr>tasks := stored_tasks (pomodoro_tasks st) (tasks s)\<rparr>))"
proof -
  have run: "tasks r = stored_tasks (pomodoro_tasks st) (tasks s)
      \<and> (\<not> truthy stored_work \<longrightarrow> workDuration r = DEFAULT_WORK)
      \<and> (\<forall>q. stored_work = JNum (Fin q) \<and> q \<noteq> 0 \<longrightarrow> workDuration r = Fin q)
      \<and> (stored_work = JNum PosInf \<or> stored_work = JNum NegInf \<longrightarrow> workDuration r = DEFAULT_WORK)
      \<and> (stored_work = JBool True \<longrightarrow> workDuration r = Fin 1)
      \<and> (\<forall>n. converted stored_work \<and> coerce stored_work = Some n \<longrightarrow> workDuration r = finite_or n DEFAULT_WORK)
      \<and> (\<not> truthy stored_break \<longrightarrow> breakDuration r = DEFAULT_BREAK)
      \<and> (\<forall>q. stored_break = JNum (Fin q) \<and> q \<noteq> 0 \<longrightarrow> breakDuration r = Fin q)
      \<and> (stored_break = JNum PosInf \<or> stored_break = JNum NegInf \<longrightarrow> breakDuration r = DEFAULT_BREAK)
      \<and> (stored_break = JBool True \<longrightarrow> breakDuration r = Fin 1)
      \<and> (\<forall>n. converted stored_break \<and> coerce stored_break = Some n \<longrightarrow> breakDuration r = finite_or n DEFAULT_BREAK)
      \<and> (\<forall>b. kind = JBool b \<longrightarrow> isWorkSession r = b)
      \<and> ((\<forall>b. kind \<noteq> JBool b) \<longrightarrow> isWorkSession r = isWorkSession s)
      \<and> (\<forall>q. stored_left = JNum (Fin q) \<longrightarrow> remaining r = Fin q)"
    if ok: "pomodoro_tasks st \<noteq> Unparsable" "\<not> settings_throw coerce (pomodoro_settings st)"
      "\<not> unreadable (pomodoro_state st)"
  proof -
    from ok obtain wd bd where
      wd: "Number coerce (js_or stored_work (JNum DEFAULT_WORK)) = Some wd"
      and bd: "Number coerce (js_or stored_break (JNum DEFAULT_BREAK)) = Some bd"
      and l: "tasks r = stored_tasks (pomodoro_tasks st) (tasks s)"
        "workDuration r = finite_or wd DEFAULT_WORK"
        "breakDuration r = finite_or bd DEFAULT_BREAK"
        "\<forall>b. kind = JBool b \<longrightarrow> isWorkSession r = b"
        "(\<forall>b. kind \<noteq> JBool b) \<longrightarrow> isWorkSession r = isWorkSession s"
        "\<forall>q. stored_left = JNum (Fin q) \<longrightarrow> remaining r = Fin q"
      unfolding r_def stored_work_def stored_break_def kind_def stored_left_def
      by (rule load_run [where coerce = coerce and st = st and s = s])
    have w: "(\<not> truthy stored_work \<longrightarrow> workDuration r = DEFAULT_WORK)
      \<and> (\<forall>q. stored_work = JNum (Fin q) \<and> q \<noteq> 0 \<longrightarrow> workDuration r = Fin q)
      \<and> (stored_work = JNum PosInf \<or> stored_work = JNum NegInf \<longrightarrow> workDuration r = DEFAULT_WORK)
      \<and> (stored_work = JBool True \<longrightarrow> workDuration r = Fin 1)
      \<and> (\<forall>n. converted stored_work \<and> coerce stored_work = Some n \<longrightarrow> workDuration r = finite_or n DEFAULT_WORK)"
      using wd converted_truthy [of stored_work]
      by (auto simp: l(2) field_number DEFAULT_WORK_def split: if_splits)
    have b: "(\<not> truthy stored_break \<longrightarrow> breakDuration r = DEFAULT_BREAK)
      \<and> (\<forall>q. stored_break = JNum (Fin q) \<and> q \<noteq> 0 \<longrightarrow> breakDuration r = Fin q)
      \<and> (stored_break = JNum PosInf \<or> stored_break = JNum NegInf \<longrightarrow> breakDuration r = DEFAULT_BREAK)
      \<and> (stored_break = JBool True \<longrightarrow> breakDuration r = Fin 1)
      \<and> (\<forall>n. converted stored_break \<and> coerce stored_break = Some n \<longrightarrow> breakDuration r = finite_or n DEFAULT_BREAK)"
      using bd converted_truthy [of stored_break]
      by (auto simp: l(3) field_number DEFAULT_BREAK_def split: if_splits)
    from w b l(1,4,5,6) show ?thesis by blast
  qed
  have thrown: "r = load_catch (s\<lparr>tasks := stored_tasks (pomodoro_tasks st) (tasks s)\<rparr>)"
    if "pomodoro_tasks st \<noteq> Unparsable"
      and "settings_throw coerce (pomodoro_settings st) \<or> unreadable (pomodoro_state st)"
    using that load_settings_throw [where st = st and coerce = coerce and s = s]
      load_state_unreadable [where st = st and coerce = coerce and s = s]
    unfolding r_def by blast
  have first: "pomodoro_tasks st = Unparsable \<longrightarrow> r = load_catch s"
    unfolding r_def by (simp add: load_tasks_unparsable)
  from run thrown first show ?thesis by simp
qed

theorem load_falls_back_per_record_witness:
  "pomodoro_tasks (broken_tasks\<lparr>pomodoro_tasks := Absent\<rparr> :: task storage) \<noteq> Unparsable
 \<and> \<not> settings_throw sample_coercion (pomodoro_settings (broken_tasks :: task storage))
 \<and> \<not> unreadable (pomodoro_state (broken_tasks :: task storage))
 \<and> tasks (load sample_coercion (broken_tasks\<lparr>pomodoro_tasks := Absent\<rparr>) session_over) = []
 \<and> workDuration (load sample_coercion (broken_tasks\<lparr>pomodoro_tasks := Absent\<rparr>) session_over)
     = Fin 600
 \<and> breakDuration (load sample_coercion (broken_tasks\<lparr>pomodoro_tasks := Absent\<rparr>) session_over)
     = Fin 120
 \<and> \<not> isWorkSession (load sample_coercion (broken_tasks\<lparr>pomodoro_tasks := Absent\<rparr>) session_over)
 \<and> remaining (load sample_coercion (broken_tasks\<lparr>pomodoro_tasks := Absent\<rparr>) session_over)
     = Fin 42
 \<and> pomodoro_tasks (broken_tasks :: task storage) = Unparsable
 \<and> load sample_coercion broken_tasks session_over = load_catch session_over
 \<and> settings_throw sample_coercion (pomodoro_settings (unconvertible_duration :: task storage))
 \<and> load sample_coercion (unconvertible_duration\<lparr>pomodoro_tasks := Parsed (TasksArray [mail_task])\<rparr>)
       session_over = load_catch (session_over\<lparr>tasks := [mail_task]\<rparr>)
 \<and> workDuration (load sample_coercion zero_string session_over) = Fin 0
 \<and> breakDuration (load sample_coercion zero_string session_over) = Fin 300"
proof -
  define st1 :: "task storage" where "st1 = broken_tasks\<lparr>pomodoro_tasks := Absent\<rparr>"
  define st2 :: "task storage" where
    "st2 = unconvertible_duration\<lparr>pomodoro_tasks := Parsed (TasksArray [mail_task])\<rparr>"
  have ok: "pomodoro_tasks st1 \<noteq> Unparsable"
    "\<not> settings_throw sample_coercion (pomodoro_settings st1)"
    "\<not> unreadable (pomodoro_state st1)"
    by (simp_all add: st1_def broken_tasks_def settings_throw_def unconvertible_def)
  have fields: "stored_tasks (pomodoro_tasks st1) (tasks session_over) = []"
    "stored_field (pomodoro_settings st1) ''workDuration'' = JNum (Fin 600)"
    "stored_field (pomodoro_settings st1) ''breakDuration'' = JNum (Fin 120)"
    "stored_field (pomodoro_state st1) ''isWorkSession'' = JBool False"
    "stored_field (pomodoro_state st1) ''remaining'' = JNum (Fin 42)"
    by (simp_all add: st1_def broken_tasks_def)
  from load_falls_back_per_record [of st1 sample_coercion session_over] ok
  have 1: "tasks (load sample_coercion st1 session_over) = []"
    "workDuration (load sample_coercion st1 session_over) = Fin 600"
    "breakDuration (load sample_coercion st1 session_over) = Fin 120"
    "\<not> isWorkSession (load sample_coercion st1 session_over)"
    "remaining (load sample_coercion st1 session_over) = Fin 42"
    unfolding fields by auto
  have bad: "pomodoro_tasks (broken_tasks :: task storage) = Unparsable"
    by (simp add: broken_tasks_def)
  with load_falls_back_per_record [of broken_tasks sample_coercion session_over]
  have 2: "load sample_coercion broken_tasks session_over = load_catch session_over"
    by blast
  have bad2: "pomodoro_tasks st2 \<noteq> Unparsable"
    "settings_throw sample_coercion (pomodoro_settings st2)"
    "stored_tasks (pomodoro_tasks st2) (tasks session_over) = [mail_task]"
    by (simp_all add: st2_def unconvertible_duration_def settings_throw_def unconvertible_def)
  with load_falls_back_per_record [of st2 sample_coercion session_over]
  have 3: "load sample_coercion st2 session_over = load_catch (session_over\<lparr>tasks := [mail_task]\<rparr>)"
    by simp
  define st3 :: "task storage" where "st3 = zero_string"
  have ok3: "pomodoro_tasks st3 \<noteq> Unparsable"
    "\<not> settings_throw sample_coercion (pomodoro_settings st3)"
    "\<not> unreadable (pomodoro_state st3)"
    by (simp_all add: st3_def zero_string_def settings_throw_def unconvertible_def)
  have fields3: "stored_field (pomodoro_settings st3) ''workDuration'' = JStr ''0''"
    "stored_field (pomodoro_settings st3) ''breakDuration'' = Undefined"
    by (simp_all add: st3_def zero_string_def)
  from load_falls_back_per_record [of st3 sample_coercion session_over] ok3
  have 4: "workDuration (load sample_coercion st3 session_over) = Fin 0"
    "breakDuration (load sample_coercion st3 session_over) = Fin 300"
    unfolding fields3 by (simp_all add: DEFAULT_BREAK_def)
  have same: "pomodoro_settings st1 = pomodoro_settings (broken_tasks :: task storage)"
    "pomodoro_state st1 = pomodoro_state (broken_tasks :: task storage)"
    "pomodoro_settings st2 = pomodoro_settings (unconvertible_duration :: task storage)"
    by (simp_all add: st1_def st2_def)
  from ok 1 bad 2 bad2(2) 3 4 show ?thesis
    unfolding same unfolding st1_def st2_def st3_def by simp
qed




section \<open>The timer invariant\<close>

lemma nonneg_int_iff: "nonneg_int n \<longleftrightarrow> (\<exists>k::int. 0 \<le> k \<and> n = Fin (of_int k))"
proof (cases n)
  case (Fin r)
  show ?thesis
  proof
    assume "nonneg_int n"
    with Fin have "0 \<le> r" and r: "of_int \<lfloor>r\<rfloor> = r" by simp_all
    then have "0 \<le> \<lfloor>r\<rfloor>" by simp
    with Fin r show "\<exists>k::int. 0 \<le> k \<and> n = Fin (of_int k)" by metis
  next
    assume "\<exists>k::int. 0 \<le> k \<and> n = Fin (of_int k)"
    then show "nonneg_int n" by auto
  qed
qed simp_all

lemma nonneg_int_sub1:
  assumes "nonneg_int n" and "js_gt0 n"
  shows "nonneg_int (js_sub1 n)"
proof -
  from assms(1) obtain k :: int where k: "0 \<le> k" "n = Fin (of_int k)"
    unfolding nonneg_int_iff by blast
  with assms(2) have "0 < k" by simp
  then have "0 \<le> k - 1" by simp
  moreover have "js_sub1 n = Fin (of_int (k - 1))" by (simp add: k(2))
  ultimately show ?thesis unfolding nonneg_int_iff by blast
qed

lemma tick_inv: "timer_inv s \<Longrightarrow> timer_inv (tick s)"
  by (simp add: timer_inv_def tick_def Let_def nonneg_int_sub1)

lemma nonneg_int_defaults: "nonneg_int DEFAULT_WORK" "nonneg_int DEFAULT_BREAK"
  by (simp_all add: DEFAULT_WORK_def DEFAULT_BREAK_def)

lemma load_catch_inv: "timer_inv (load_catch s)"
  by (simp add: timer_inv_def load_catch_def nonneg_int_defaults)

lemma nonneg_int_finite_or: "nonneg_int n \<Longrightarrow> finite_or n d = n"
  by (cases n) simp_all

lemma clean_field_number:
  assumes "absent_or_count f" and "nonneg_int d"
  obtains n where "Number coerce (js_or f (JNum d)) = Some n" and "nonneg_int n"
proof (cases f)
  case (JNum m)
  with assms have "nonneg_int (if truthy (JNum m) then m else d)" by simp
  moreover from JNum have "Number coerce (js_or f (JNum d)) = Some (if truthy (JNum m) then m else d)"
    by (simp add: js_or_def del: truthy.simps)
  ultimately show ?thesis by (rule that [rotated])
next
  case Undefined
  with assms show ?thesis by (intro that [of d]) (simp_all add: js_or_def)
qed (use assms in simp_all)

lemma clean_item_field:
  assumes "clean_item ks x" and "k \<in> set ks" and "parse_or x (JObj []) = Some v"
    and "get_prop v k = Some f"
  shows "absent_or_count f"
proof (cases x)
  case Absent
  with assms(3,4) show ?thesis by auto
next
  case Unparsable
  with assms(3) show ?thesis by simp
next
  case (Parsed u)
  with assms show ?thesis by (auto simp: list_all_iff)
qed

lemma read_settings_clean:
  assumes "clean_item [''workDuration'', ''breakDuration''] (pomodoro_settings st)"
    and "read_settings coerce st s = Some (s2, wd, bd)"
  shows "nonneg_int wd \<and> nonneg_int bd \<and> nonneg_int (workDuration s2) \<and>
         nonneg_int (breakDuration s2)"
proof -
  from assms(2) obtain v wv bv where v: "parse_or (pomodoro_settings st) (JObj []) = Some v"
    and wv: "get_prop v ''workDuration'' = Some wv"
    and bv: "get_prop v ''breakDuration'' = Some bv"
    by (auto simp: read_settings_def split: option.splits)
  have "absent_or_count wv"
    using clean_item_field [OF assms(1) _ v wv] by simp
  then obtain wn where wn: "Number coerce (js_or wv (JNum DEFAULT_WORK)) = Some wn"
    "nonneg_int wn"
    using nonneg_int_defaults(1) by (rule clean_field_number)
  have "absent_or_count bv"
    using clean_item_field [OF assms(1) _ v bv] by simp
  then obtain bn where bn: "Number coerce (js_or bv (JNum DEFAULT_BREAK)) = Some bn"
    "nonneg_int bn"
    using nonneg_int_defaults(2) by (rule clean_field_number)
  from assms(2) have "wd = wn" "bd = bn"
    "workDuration s2 = finite_or wn DEFAULT_WORK" "breakDuration s2 = finite_or bn DEFAULT_BREAK"
    by (auto simp: read_settings_def v wv bv wn(1) bn(1))
  with wn(2) bn(2) show ?thesis by (simp add: nonneg_int_finite_or)
qed

lemma read_state_clean:
  assumes "clean_item [''remaining''] (pomodoro_state st)"
    and "read_state st wd bd s = Some s'" and "nonneg_int wd" and "nonneg_int bd"
  shows "nonneg_int (remaining s') \<and> workDuration s' = workDuration s \<and>
         breakDuration s' = breakDuration s"
proof -
  from assms(2) obtain v iw rv where v: "parse_or (pomodoro_state st) (JObj []) = Some v"
    and iw: "get_prop v ''isWorkSession'' = Some iw"
    and rv: "get_prop v ''remaining'' = Some rv"
    by (auto simp: read_state_def Let_def split: option.splits)
  have "absent_or_count rv"
    using clean_item_field [OF assms(1) _ v rv] by simp
  with assms(2-4) show ?thesis
    by (auto simp: read_state_def v iw rv Let_def split: jsval.splits jsnum.splits)
qed

lemma load_clean:
  assumes "clean_storage st"
  shows "timer_inv (load coerce st s)"
proof (cases "read_tasks st s")
  case None
  then show ?thesis by (simp add: load_def load_catch_inv)
next
  case (Some s1)
  show ?thesis
  proof (cases "read_settings coerce st s1")
    case None
    with Some show ?thesis by (simp add: load_def load_catch_inv)
  next
    case settings: (Some p)
    obtain s2 wd bd where p: "p = (s2, wd, bd)" by (cases p)
    from assms settings p have nn: "nonneg_int wd" "nonneg_int bd"
      "nonneg_int (workDuration s2)" "nonneg_int (breakDuration s2)"
      using read_settings_clean [of st coerce s1 s2 wd bd] by (simp_all add: clean_storage_def)
    show ?thesis
    proof (cases "read_state st wd bd s2")
      case None
      with Some settings p show ?thesis by (simp add: load_def load_catch_inv)
    next
      case state: (Some s3)
      from assms state nn have "nonneg_int (remaining s3)" "workDuration s3 = workDuration s2"
        "breakDuration s3 = breakDuration s2"
        using read_state_clean [of st wd bd s2 s3] by (simp_all add: clean_storage_def)
      with Some settings p state nn show ?thesis by (simp add: load_def timer_inv_def)
    qed
  qed
qed

lemma nonneg_int_minutes: "0 \<le> m \<Longrightarrow> nonneg_int (Fin (of_int m * 60))"
proof -
  assume "0 \<le> m"
  then have "0 \<le> m * 60" by simp
  moreover have "Fin (of_int m * 60) = Fin (of_int (m * 60))" by simp
  ultimately show ?thesis unfolding nonneg_int_iff by blast
qed

lemma updateDurations_inv:
  assumes "w \<noteq> NaN" and "b \<noteq> NaN"
  shows "timer_inv (updateDurations w b s)"
proof -
  have "0 \<le> clamp_minutes 1 180 w" "0 \<le> clamp_minutes 1 60 b"
    using clamp_minutes_range [of 1 180 w] clamp_minutes_range [of 1 60 b] by simp_all
  then have "nonneg_int (Fin (of_int (clamp_minutes 1 180 w) * 60))"
    "nonneg_int (Fin (of_int (clamp_minutes 1 60 b) * 60))"
    by (simp_all add: nonneg_int_minutes)
  with assms show ?thesis
    by (simp add: timer_inv_def updateDurations_def Let_def work_seconds break_seconds)
qed

lemma apply_event_inv:
  assumes "timer_inv s" and "numeric_event e"
  shows "timer_inv (apply_event e s)"
proof (cases e)
  case Tick
  with assms show ?thesis by (simp add: tick_inv)
next
  case (UpdateDurations w b)
  with assms show ?thesis by (simp add: updateDurations_inv)
next
  case (AddTask newId)
  with assms show ?thesis by (simp add: timer_inv_def addTask_def Let_def)
qed (use assms in \<open>simp_all add: timer_inv_def startPause_def resetTimer_def switchSession_def
    selectMode_def setTaskInput_def toggleTaskDone_def deleteTask_def editTaskName_def
    selectTask_def Let_def\<close>)

lemma events_inv:
  "timer_inv s \<Longrightarrow> list_all numeric_event evs \<Longrightarrow> timer_inv (fold apply_event evs s)"
  by (induction evs arbitrary: s) (simp_all add: apply_event_inv)

lemma num_json_count: "nonneg_int n \<Longrightarrow> num_json n = JNum n"
  by (cases n) simp_all

lemma persist_clean: "timer_inv s \<Longrightarrow> clean_storage (persist s)"
  by (simp add: timer_inv_def clean_storage_def persist_def num_json_count)

text \<open>
  C9, as stated: every operation, the load from arbitrary stored data among them, keeps
  \<^verbatim>\<open>remaining\<close> a non-negative integer. The loader takes any finite stored
  \<^verbatim>\<open>remaining\<close> as it is: a stored \<open>-5\<close> becomes the \<^verbatim>\<open>remaining\<close> of the state.
\<close>

theorem negative_remaining_is_loaded:
  "remaining (load no_coercion negative_remaining initial) = Fin (- 5)
   \<and> \<not> nonneg_int (remaining (load no_coercion negative_remaining initial))"
  by (simp add: negative_remaining_def load_def read_tasks_def read_settings_def read_state_def
      initial_def js_or_def Let_def)

text \<open>
  C9, amended: \<^verbatim>\<open>remaining\<close> is a non-negative integer in every state reached by loading
  stored data in which each of \<^verbatim>\<open>workDuration\<close>, \<^verbatim>\<open>breakDuration\<close> and \<^verbatim>\<open>remaining\<close> is
  absent or a non-negative integer (missing and unreadable records included) and then
  performing any sequence of operations (tick, start or pause, reset, switch, direct mode
  select, duration update with numeric arguments, and the task operations); both durations
  stay non-negative integers as well, and what such a state persists is again such stored
  data. The load does not establish this for arbitrary stored data.
\<close>

theorem remaining_stays_a_count:
  assumes "clean_storage st" and "list_all numeric_event evs"
  shows "nonneg_int (remaining (fold apply_event evs (load coerce st initial)))
       \<and> timer_inv (fold apply_event evs (load coerce st initial))
       \<and> clean_storage (persist (fold apply_event evs (load coerce st initial)))"
proof -
  have "timer_inv (load coerce st initial)"
    using assms(1) by (rule load_clean)
  then have "timer_inv (fold apply_event evs (load coerce st initial))"
    using assms(2) by (rule events_inv)
  then show ?thesis
    by (simp add: persist_clean) (simp add: timer_inv_def)
qed

theorem remaining_stays_a_count_witness:
  "clean_storage (persist session_over)
 \<and> list_all numeric_event [StartPause, Tick, Tick, UpdateDurations (Fin 50) (Fin 10), SwitchSession]
 \<and> remaining (fold apply_event [StartPause, Tick, Tick] (load no_coercion (persist session_over) initial))
     = Fin 299
 \<and> nonneg_int (remaining (fold apply_event
     [StartPause, Tick, Tick, UpdateDurations (Fin 50) (Fin 10), SwitchSession]
     (load no_coercion (persist session_over) initial)))"
proof -
  have clean: "clean_storage (persist session_over)"
    by (simp add: clean_storage_def persist_def session_over_def)
  have numeric: "list_all numeric_event
    [StartPause, Tick, Tick, UpdateDurations (Fin 50) (Fin 10), SwitchSession]"
    by simp
  have run: "remaining (fold apply_event [StartPause, Tick, Tick]
      (load no_coercion (persist session_over) initial)) = Fin 299"
    by (simp add: load_def persist_def read_tasks_def read_settings_def read_state_def
        js_or_def Let_def session_over_def initial_def startPause_def tick_def)
  from remaining_stays_a_count [OF clean numeric, of no_coercion] clean numeric run
  show ?thesis by simp
qed

end
